theory Spec2Isabelle
  imports Complex_Main "HOL-Library.Sublist" "HOL-Library.AList"
begin

section \<open>The CFM service worker (sw.js): data model\<close>

text \<open>
  The worker intercepts requests, answers them from named caches or from the network, and
  manages the caches over its install and activate events. The model below follows sw.js
  function by function. What the platform provides is written as data:
  \<^item> the network is a function from a URL to the response \<open>fetch\<close> resolves with, or
    \<open>None\<close> when \<open>fetch\<close> rejects;
  \<^item> \<open>CacheStorage\<close> is a list of named caches in creation order (the order
    \<open>caches.keys()\<close> and \<open>caches.match\<close> use), each cache a list of entries keyed by
    the absolute URL of the request, without its fragment;
  \<^item> a cache answers a lookup only for a GET request, and rejects the write of a request
    that is not a GET request over http or https, and of a response with status 206 or
    with the header \<open>Vary: *\<close>;
  \<^item> the clock is read in milliseconds since the epoch, as \<open>Date\<close> does.
  The comparison of the request headers that a \<open>Vary\<close> header of a stored response names
  is not modelled: a request has no headers here.
  An asynchronous function returns what its promise settles with, together with the
  cache storage as it is once the work the call started, awaited or not, has settled.
\<close>

subsection \<open>Responses and requests\<close>

text \<open>
  A header value is text; \<open>Instant t\<close> stands for the text
  \<open>new Date(t).toISOString()\<close>, which \<open>new Date(...)\<close> reads back as \<open>t\<close>.
  Header names are kept in lower case, as \<open>Headers\<close> normalises them.
\<close>

datatype hvalue = Text string | Instant int

type_synonym headers = "(string \<times> hvalue) list"

record response =
  status :: nat
  statusText :: string
  headers :: headers
  body :: string

definition headers_get :: "headers \<Rightarrow> string \<Rightarrow> hvalue option" where
  "headers_get hs name = map_of hs name"

definition headers_set :: "headers \<Rightarrow> string \<Rightarrow> hvalue \<Rightarrow> headers" where
  "headers_set hs name v = AList.update name v hs"

text \<open>\<open>response.ok\<close>: the status is in the range 200 to 299.\<close>

definition ok :: "response \<Rightarrow> bool" where
  "ok r = (200 \<le> status r \<and> status r \<le> 299)"

text \<open>\<open>String.prototype.includes\<close>: the second string occurs in the first.\<close>

fun str_includes :: "string \<Rightarrow> string \<Rightarrow> bool" where
  "str_includes [] t = (t = [])"
| "str_includes (c # s) t = (prefix t (c # s) \<or> str_includes s t)"

text \<open>\<open>value?.includes(s)\<close> on a header value that may be missing.\<close>

definition header_includes :: "hvalue option \<Rightarrow> string \<Rightarrow> bool" where
  "header_includes v s = (case v of Some (Text t) \<Rightarrow> str_includes t s | _ \<Rightarrow> False)"

text \<open>
  A request, with the fields the worker reads, \<open>request.mode\<close> and \<open>request.url\<close>, the
  latter with the components \<open>new URL(request.url)\<close> gives, and \<open>request.method\<close>
  (the field \<open>request_method\<close>), which the caches read. \<open>href\<close> is \<open>request.url\<close>
  itself (serialising a parsed URL again does not change it).
\<close>

record request =
  href :: string
  protocol :: string
  host :: string
  origin :: string
  pathname :: string
  search :: string
  mode :: string
  request_method :: string

subsection \<open>Cache storage\<close>

type_synonym cache = "(string \<times> response) list"
type_synonym cache_storage = "(string \<times> cache) list"

definition caches_keys :: "cache_storage \<Rightarrow> string list" where
  "caches_keys cs = map fst cs"

text \<open>\<open>caches.open(name)\<close> creates the cache when it does not exist.\<close>

definition caches_open :: "string \<Rightarrow> cache_storage \<Rightarrow> cache_storage" where
  "caches_open name cs = (if name \<in> set (caches_keys cs) then cs else cs @ [(name, [])])"

definition caches_delete :: "string \<Rightarrow> cache_storage \<Rightarrow> cache_storage" where
  "caches_delete name cs = filter (\<lambda>p. fst p \<noteq> name) cs"

text \<open>The entry of a key in the cache called \<open>name\<close>, and its replacement.\<close>

definition cache_match :: "string \<Rightarrow> cache_storage \<Rightarrow> string \<Rightarrow> response option" where
  "cache_match name cs key = (case map_of cs name of None \<Rightarrow> None | Some c \<Rightarrow> map_of c key)"

definition cache_put :: "string \<Rightarrow> string \<Rightarrow> response \<Rightarrow> cache_storage \<Rightarrow> cache_storage" where
  "cache_put name key r cs =
     map (\<lambda>p. if fst p = name then (fst p, AList.update key r (snd p)) else p) cs"

text \<open>The first entry of a key over all caches, in creation order.\<close>

primrec caches_match :: "cache_storage \<Rightarrow> string \<Rightarrow> response option" where
  "caches_match [] key = None"
| "caches_match (p # cs) key =
     (case map_of (snd p) key of Some r \<Rightarrow> Some r | None \<Rightarrow> caches_match cs key)"

text \<open>
  The key of a request in a cache: its URL without the fragment. A URL literal of sw.js
  (\<open>./offline.html\<close>, the manifest) is resolved against the location of the worker
  first: the literals are absolute URLs or start with \<open>./\<close>, and \<open>base\<close> is the URL of
  the directory of the worker script, with its final slash.
\<close>

definition cache_key :: "request \<Rightarrow> string" where
  "cache_key req = takeWhile (\<lambda>c. c \<noteq> CHR ''#'') (href req)"

definition resolve_url :: "string \<Rightarrow> string \<Rightarrow> string" where
  "resolve_url base u = (if prefix ''./'' u then base @ drop 2 u else u)"

text \<open>
  \<open>cache.match(request)\<close> and \<open>caches.match(request)\<close>: a request that is not a GET
  request matches nothing.
\<close>

definition cache_match_request :: "string \<Rightarrow> cache_storage \<Rightarrow> request \<Rightarrow> response option" where
  "cache_match_request name cs req =
     (if request_method req = ''GET'' then cache_match name cs (cache_key req) else None)"

definition caches_match_request :: "cache_storage \<Rightarrow> request \<Rightarrow> response option" where
  "caches_match_request cs req =
     (if request_method req = ''GET'' then caches_match cs (cache_key req) else None)"

text \<open>
  When \<open>cache.put\<close> and \<open>cache.addAll\<close> take a response: not with status 206, and not
  with a \<open>Vary\<close> header that holds \<open>*\<close>. \<open>cache.put(request, response)\<close> also wants a
  GET request over http or https; otherwise its promise rejects with a \<open>TypeError\<close>.
\<close>

definition response_storable :: "response \<Rightarrow> bool" where
  "response_storable r =
     (status r \<noteq> 206 \<and> \<not> header_includes (headers_get (headers r) ''vary'') ''*'')"

definition put_accepts :: "request \<Rightarrow> response \<Rightarrow> bool" where
  "put_accepts req r =
     (request_method req = ''GET'' \<and> (protocol req = ''http:'' \<or> protocol req = ''https:'') \<and>
      response_storable r)"

subsection \<open>Configuration (sw.js, lines 2 to 34)\<close>

definition CACHE_NAME :: string where "CACHE_NAME = ''cfm-updates-v3.0''"
definition STATIC_CACHE :: string where "STATIC_CACHE = ''cfm-static-v3.0''"
definition API_CACHE :: string where "API_CACHE = ''cfm-api-v3.0''"
definition OFFLINE_CACHE :: string where "OFFLINE_CACHE = ''cfm-offline-v3.0''"

definition STATIC_ASSETS :: "string list" where
  "STATIC_ASSETS =
    [''./'', ''./index.html'', ''./offline.html'', ''./termos.html'', ''./politicas.html'',
     ''./sound.mp3'', ''./manifest.json'', ''./icon-192.png'', ''./icon-512.png'',
     ''./pwa-fullscreen.css'',
     ''https://fonts.googleapis.com/css2?family=Roboto:wght@300;400;500;700&display=swap'',
     ''https://cdnjs.cloudflare.com/ajax/libs/font-awesome/6.4.0/css/all.min.css'',
     ''./fallback-logo.png'', ''./fallback-bg.jpg'']"

subsection \<open>The environment and what a handler returns\<close>

type_synonym client = nat

datatype message =
    SW_ACTIVATED string int
  | DATA_UPDATED string int

text \<open>
  \<open>fetch\<close> is the network; \<open>now\<close> is the clock when the event arrives and
  \<open>settled_at\<close> the clock when the fetch has settled; \<open>clients\<close> is what
  \<open>self.clients.matchAll()\<close> resolves with; \<open>location_origin\<close> is
  \<open>self.location.origin\<close> and \<open>location_base\<close> the URL of the directory of the worker
  script. \<open>date_parse s\<close> is the time \<open>new Date(s)\<close> reads from the text \<open>s\<close>
  (\<open>None\<close> for an invalid date). For the update check, \<open>lastUpdate_of b\<close> is the field
  \<open>lastUpdate\<close> of the JSON text \<open>b\<close> (\<open>None\<close> when \<open>response.json()\<close> rejects), and
  \<open>localStorage\<close> is the stored item \<open>cfm_last_update\<close> (\<open>None\<close> when the global scope
  has no \<open>localStorage\<close> and reading it throws).
\<close>

record env =
  fetch :: "string \<Rightarrow> response option"
  now :: int
  settled_at :: int
  clients :: "client list"
  location_origin :: string
  location_base :: string
  date_parse :: "string \<Rightarrow> int option"
  lastUpdate_of :: "string \<Rightarrow> string option"
  localStorage :: "string option option"

datatype error = NetworkError | NotOk | SyntaxError | ReferenceError | TypeError

text \<open>
  What an asynchronous handler settles with: a response, the value \<open>undefined\<close>, or a
  rejection.
\<close>

datatype result = Response response | Undefined | Rejected error

text \<open>How a handler used the fetch it issued: awaited before returning, or left running.\<close>

datatype fetch_use = Awaited | Background

record outcome =
  returned :: result
  store :: cache_storage
  fetches :: "fetch_use list"
  posted :: "(client \<times> message) list"

section \<open>Strategies (sw.js, lines 168 to 317)\<close>

text \<open>The test of line 174 on the content type of the network response.\<close>

definition is_html :: "response \<Rightarrow> bool" where
  "is_html r = header_includes (headers_get (headers r) ''content-type'') ''text/html''"

text \<open>
  The \<open>catch\<close> block of \<open>handleNavigation\<close> (lines 180 to 192): the first match of the
  request over all caches, and otherwise the entry of \<open>./offline.html\<close> in the offline
  cache, which is \<open>undefined\<close> when the cache does not hold it.
\<close>

definition navigation_fallback :: "env \<Rightarrow> cache_storage \<Rightarrow> request \<Rightarrow> outcome" where
  "navigation_fallback e cs req =
     (case caches_match_request cs req of
        Some cachedResponse \<Rightarrow>
          \<lparr>returned = Response cachedResponse, store = cs,
           fetches = [Awaited], posted = []\<rparr>
      | None \<Rightarrow>
          (let cs' = caches_open OFFLINE_CACHE cs in
           \<lparr>returned =
              (case cache_match OFFLINE_CACHE cs'
                      (resolve_url (location_base e) ''./offline.html'') of
                 Some r \<Rightarrow> Response r | None \<Rightarrow> Undefined),
            store = cs', fetches = [Awaited], posted = []\<rparr>))"

text \<open>
  \<open>handleNavigation\<close> (lines 168 to 193). The write of line 176 is inside the \<open>try\<close>
  block: when the cache rejects it, the \<open>catch\<close> block runs as it does after a rejected
  fetch.
\<close>

definition handleNavigation :: "env \<Rightarrow> cache_storage \<Rightarrow> request \<Rightarrow> outcome" where
  "handleNavigation e cs req =
     (case fetch e (href req) of
        Some networkResponse \<Rightarrow>
          (if is_html networkResponse
           then (let cs1 = caches_open CACHE_NAME cs in
                 if put_accepts req networkResponse
                 then \<lparr>returned = Response networkResponse,
                       store = cache_put CACHE_NAME (cache_key req) networkResponse cs1,
                       fetches = [Awaited], posted = []\<rparr>
                 else navigation_fallback e cs1 req)
           else \<lparr>returned = Response networkResponse, store = cs,
                 fetches = [Awaited], posted = []\<rparr>)
      | None \<Rightarrow> navigation_fallback e cs req)"

text \<open>
  \<open>cacheFirstWithUpdate\<close> (lines 196 to 225). The fetch is issued on every call;
  \<open>fetchPromise\<close> is the fetch followed by the \<open>then\<close> and the \<open>catch\<close> callbacks, and
  the \<open>catch\<close> callback returns nothing, so after a rejected fetch, or a rejected write
  in the \<open>then\<close> callback, the promise resolves with \<open>undefined\<close>. The test on
  \<open>chrome-extension\<close> (line 217) only attaches one more \<open>catch\<close> to the promise and
  changes no result.
\<close>

definition cacheFirstWithUpdate :: "env \<Rightarrow> cache_storage \<Rightarrow> request \<Rightarrow> outcome" where
  "cacheFirstWithUpdate e cs req =
     (let cachedResponse = caches_match_request cs req;
          fetchPromise =
            (case fetch e (href req) of
               Some networkResponse \<Rightarrow>
                 (if status networkResponse = 200
                  then (let cs1 = caches_open STATIC_CACHE cs in
                        if put_accepts req networkResponse
                        then (Response networkResponse,
                              cache_put STATIC_CACHE (cache_key req) networkResponse cs1)
                        else (Undefined, cs1))
                  else (Response networkResponse, cs))
             | None \<Rightarrow> (Undefined, cs))
      in case cachedResponse of
           Some c \<Rightarrow>
             \<lparr>returned = Response c, store = snd fetchPromise,
              fetches = [Background], posted = []\<rparr>
         | None \<Rightarrow>
             \<lparr>returned = fst fetchPromise, store = snd fetchPromise,
              fetches = [Awaited], posted = []\<rparr>)"

text \<open>
  \<open>notifyAboutUpdate\<close> (lines 368 to 377). The text of the message is written without
  its accent.
\<close>

definition notifyAboutUpdate :: "env \<Rightarrow> (client \<times> message) list" where
  "notifyAboutUpdate e =
     map (\<lambda>client. (client, DATA_UPDATED ''Dados atualizados disponiveis'' (settled_at e)))
       (clients e)"

text \<open>
  \<open>staleWhileRevalidate\<close> (lines 228 to 256). The notification of line 240 comes after
  the awaited write of line 236.
\<close>

definition staleWhileRevalidate :: "env \<Rightarrow> cache_storage \<Rightarrow> request \<Rightarrow> outcome" where
  "staleWhileRevalidate e cs req =
     (let cs1 = caches_open API_CACHE cs;
          cachedResponse = cache_match_request API_CACHE cs1 req;
          fetchPromise =
            (case fetch e (href req) of
               Some networkResponse \<Rightarrow>
                 (if status networkResponse = 200
                  then (if put_accepts req networkResponse
                        then (Response networkResponse,
                              cache_put API_CACHE (cache_key req) networkResponse cs1,
                              (if str_includes (href req) ''script.google.com''
                               then notifyAboutUpdate e else []))
                        else (Undefined, cs1, []))
                  else (Response networkResponse, cs1, []))
             | None \<Rightarrow> (Undefined, cs1, []))
      in case cachedResponse of
           Some c \<Rightarrow>
             \<lparr>returned = Response c, store = fst (snd fetchPromise),
              fetches = [Background], posted = snd (snd fetchPromise)\<rparr>
         | None \<Rightarrow>
             \<lparr>returned = fst fetchPromise, store = fst (snd fetchPromise),
              fetches = [Awaited], posted = snd (snd fetchPromise)\<rparr>)"

text \<open>
  \<open>new Date(v)\<close> on a header value that may be missing: \<open>new Date(null)\<close> is the epoch,
  and a text is parsed; the time of an invalid date is \<open>NaN\<close> (here \<open>None\<close>).
\<close>

definition date_of :: "env \<Rightarrow> hvalue option \<Rightarrow> int option" where
  "date_of e v =
     (case v of
        None \<Rightarrow> Some 0
      | Some (Instant t) \<Rightarrow> Some t
      | Some (Text s) \<Rightarrow> date_parse e s)"

text \<open>
  Lines 265 to 269: \<open>minutesDiff < 5\<close>, where \<open>minutesDiff\<close> is the difference of the two
  dates in milliseconds divided by \<open>1000 * 60\<close>; a comparison with \<open>NaN\<close> is false.
\<close>

definition cached_recently :: "env \<Rightarrow> response \<Rightarrow> bool" where
  "cached_recently e cachedResponse =
     (case date_of e (headers_get (headers cachedResponse) ''sw-cached-time'') of
        None \<Rightarrow> False
      | Some cachedTime \<Rightarrow> real_of_int (now e - cachedTime) / (1000 * 60) < 5)"

text \<open>
  Lines 274 to 281 and 297 to 304: the copy of the network response that carries the
  header \<open>sw-cached-time\<close>, set to the clock read when the fetch has settled.
\<close>

definition stamped :: "env \<Rightarrow> response \<Rightarrow> response" where
  "stamped e networkResponse =
     \<lparr>status = status networkResponse, statusText = statusText networkResponse,
      headers = headers_set (headers networkResponse) ''sw-cached-time'' (Instant (settled_at e)),
      body = body networkResponse\<rparr>"

text \<open>
  \<open>handleGoogleScript\<close> (lines 259 to 317). A rejected write is ignored in the
  background refresh (line 286) and caught, like a failed fetch, after the awaited fetch
  (lines 311 to 316).
\<close>

definition handleGoogleScript :: "env \<Rightarrow> cache_storage \<Rightarrow> request \<Rightarrow> outcome" where
  "handleGoogleScript e cs req =
     (let cs1 = caches_open API_CACHE cs;
          cachedResponse = cache_match_request API_CACHE cs1 req
      in if (case cachedResponse of Some c \<Rightarrow> cached_recently e c | None \<Rightarrow> False)
         then
           \<lparr>returned = (case cachedResponse of Some c \<Rightarrow> Response c | None \<Rightarrow> Undefined),
            store =
              (case fetch e (href req) of
                 Some networkResponse \<Rightarrow>
                   (if ok networkResponse \<and> put_accepts req (stamped e networkResponse)
                    then cache_put API_CACHE (cache_key req) (stamped e networkResponse) cs1
                    else cs1)
               | None \<Rightarrow> cs1),
            fetches = [Background], posted = []\<rparr>
         else
           (case fetch e (href req) of
              Some networkResponse \<Rightarrow>
                (if ok networkResponse
                 then
                   (if put_accepts req (stamped e networkResponse)
                    then
                      \<lparr>returned = Response (stamped e networkResponse),
                       store =
                         cache_put API_CACHE (cache_key req) (stamped e networkResponse) cs1,
                       fetches = [Awaited], posted = []\<rparr>
                    else
                      \<lparr>returned =
                         (case cachedResponse of Some c \<Rightarrow> Response c
                          | None \<Rightarrow> Rejected TypeError),
                       store = cs1, fetches = [Awaited], posted = []\<rparr>)
                 else
                   \<lparr>returned =
                      (case cachedResponse of Some c \<Rightarrow> Response c | None \<Rightarrow> Rejected NotOk),
                    store = cs1, fetches = [Awaited], posted = []\<rparr>)
            | None \<Rightarrow>
                \<lparr>returned =
                   (case cachedResponse of Some c \<Rightarrow> Response c
                    | None \<Rightarrow> Rejected NetworkError),
                 store = cs1, fetches = [Awaited], posted = []\<rparr>))"

section \<open>The fetch event (sw.js, lines 322 to 362)\<close>

datatype handler =
  HandleNavigation | HandleGoogleScript | StaleWhileRevalidate | CacheFirstWithUpdate

text \<open>\<open>PassThrough\<close>: the listener returns without calling \<open>event.respondWith\<close>.\<close>

datatype decision = PassThrough | RespondWith handler

text \<open>The test of line 355: the path ends with a dot and one of the extensions.\<close>

definition static_extension :: "string \<Rightarrow> bool" where
  "static_extension path =
     list_ex (\<lambda>ext. suffix (''.'' @ ext) path)
       [''css'', ''js'', ''png'', ''jpg'', ''jpeg'', ''gif'', ''svg'', ''woff'', ''woff2'',
        ''ttf'', ''eot'']"

definition fetch_route :: "string \<Rightarrow> request \<Rightarrow> decision" where
  "fetch_route self_origin req =
     (if protocol req = ''chrome-extension:'' \<or>
         str_includes (href req) ''service-worker.min.js'' \<or>
         str_includes (href req) ''3nbf4.com/act/files/''
      then PassThrough
      else if mode req = ''navigate'' then RespondWith HandleNavigation
      else if str_includes (href req) ''script.google.com'' then RespondWith HandleGoogleScript
      else if str_includes (search req) ''action='' \<or> str_includes (pathname req) ''/api/''
      then RespondWith StaleWhileRevalidate
      else if origin req = self_origin \<or>
              str_includes (href req) ''fonts.googleapis.com'' \<or>
              str_includes (href req) ''fonts.gstatic.com'' \<or>
              str_includes (href req) ''cdnjs.cloudflare.com'' \<or>
              static_extension (pathname req)
      then RespondWith CacheFirstWithUpdate
      else RespondWith HandleNavigation)"

fun run_handler :: "handler \<Rightarrow> env \<Rightarrow> cache_storage \<Rightarrow> request \<Rightarrow> outcome" where
  "run_handler HandleNavigation = handleNavigation"
| "run_handler HandleGoogleScript = handleGoogleScript"
| "run_handler StaleWhileRevalidate = staleWhileRevalidate"
| "run_handler CacheFirstWithUpdate = cacheFirstWithUpdate"

text \<open>The listener: \<open>None\<close> when the worker does not answer the request.\<close>

definition fetch_listener :: "env \<Rightarrow> cache_storage \<Rightarrow> request \<Rightarrow> outcome option" where
  "fetch_listener e cs req =
     (case fetch_route (location_origin e) req of
        PassThrough \<Rightarrow> None
      | RespondWith h \<Rightarrow> Some (run_handler h e cs req))"

text \<open>
  The cache each handler opens for its writes (lines 175, 205, 229 and 260); the lemma
  \<open>handler_writes_own_cache\<close> below shows that a handler changes the entries of no other
  cache.
\<close>

fun handler_cache :: "handler \<Rightarrow> string" where
  "handler_cache HandleNavigation = CACHE_NAME"
| "handler_cache HandleGoogleScript = API_CACHE"
| "handler_cache StaleWhileRevalidate = API_CACHE"
| "handler_cache CacheFirstWithUpdate = STATIC_CACHE"

section \<open>Installation and activation (sw.js, lines 39 to 161)\<close>

text \<open>
  The document built at lines 53 to 116. Its markup is written here up to the title; the
  style sheet and the body of the page, which no function of the worker reads, are left
  out. A response built without a status has status 200 and an empty status text.
\<close>

definition offlineResponse :: response where
  "offlineResponse =
     \<lparr>status = 200, statusText = [],
      headers = [(''content-type'', Text ''text/html; charset=utf-8''),
                 (''x-offline'', Text ''true'')],
      body = ''<!DOCTYPE html><html lang=pt-MZ><head><title>CFM - Offline</title>''\<rparr>"

text \<open>
  \<open>cache.addAll(urls)\<close> resolves every URL, fetches it and stores the responses under
  the resolved URLs; it rejects, and stores nothing, when one fetch rejects or one
  response is not \<open>ok\<close> or is one that a cache does not take.
\<close>

definition addable :: "response \<Rightarrow> bool" where
  "addable r = (ok r \<and> response_storable r)"

primrec fetch_all :: "env \<Rightarrow> string list \<Rightarrow> (string \<times> response) list option" where
  "fetch_all e [] = Some []"
| "fetch_all e (u # us) =
     (case fetch e (resolve_url (location_base e) u) of
        None \<Rightarrow> None
      | Some r \<Rightarrow>
          (if addable r
           then (case fetch_all e us of
                   None \<Rightarrow> None
                 | Some rs \<Rightarrow> Some ((resolve_url (location_base e) u, r) # rs))
           else None))"

definition addAll :: "env \<Rightarrow> string \<Rightarrow> string list \<Rightarrow> cache_storage \<Rightarrow> cache_storage option" where
  "addAll e name urls cs =
     (case fetch_all e urls of
        None \<Rightarrow> None
      | Some rs \<Rightarrow> Some (fold (\<lambda>p s. cache_put name (fst p) (snd p) s) rs cs))"

text \<open>
  What a lifecycle event leaves: whether the promise given to \<open>event.waitUntil\<close>
  resolved, the cache storage, whether \<open>self.skipWaiting()\<close> was called, and the messages
  posted to clients.
\<close>

record lifecycle =
  resolved :: bool
  caches_after :: cache_storage
  skipWaiting :: bool
  broadcast :: "(client \<times> message) list"

text \<open>
  The install listener (lines 39 to 124). The write of the fallback document (line 118)
  is awaited after \<open>addAll\<close> (line 50), in the same asynchronous function.
\<close>

definition install :: "env \<Rightarrow> cache_storage \<Rightarrow> lifecycle" where
  "install e cs =
     (let cs1 = caches_open STATIC_CACHE cs;
          cs2 = caches_open OFFLINE_CACHE cs1
      in case addAll e STATIC_CACHE STATIC_ASSETS cs2 of
           None \<Rightarrow>
             \<lparr>resolved = False, caches_after = cs2, skipWaiting = False, broadcast = []\<rparr>
         | Some cs3 \<Rightarrow>
             (if response_storable offlineResponse
              then
                \<lparr>resolved = True,
                 caches_after =
                   cache_put OFFLINE_CACHE (resolve_url (location_base e) ''./offline.html'')
                     offlineResponse cs3,
                 skipWaiting = True, broadcast = []\<rparr>
              else
                \<lparr>resolved = False, caches_after = cs3, skipWaiting = False,
                 broadcast = []\<rparr>))"

text \<open>The activate listener (lines 129 to 161).\<close>

definition activate :: "env \<Rightarrow> cache_storage \<Rightarrow> lifecycle" where
  "activate e cs =
     (let cacheNames = caches_keys cs
      in \<lparr>resolved = True,
          caches_after =
            fold (\<lambda>cacheName s.
                if cacheName \<notin> set [CACHE_NAME, STATIC_CACHE, API_CACHE, OFFLINE_CACHE]
                then caches_delete cacheName s else s)
              cacheNames cs,
          skipWaiting = False,
          broadcast = map (\<lambda>client. (client, SW_ACTIVATED ''3.0'' (now e))) (clients e)\<rparr>)"

section \<open>Messages from clients (sw.js, lines 541 to 607)\<close>

datatype notification = Notification string string

definition UPDATE_URL :: string where
  "UPDATE_URL = ''https://script.google.com/macros/s/AKfycby7_IGl4-vf2A81zi9STdIWQrBS31M3Ornq1m_6R2lh33a7EcXbP8l2xNBLQUk_S0JJ/exec?action=lastupdate''"

text \<open>
  \<open>checkForUpdates\<close> (lines 541 to 571). The statements of the \<open>try\<close> block either
  finish, with the notifications shown, or throw; the \<open>catch\<close> block logs the error, so
  the promise of \<open>checkForUpdates\<close> resolves in every case. The texts of the
  notification are written without their accents and without the pictograph.
\<close>

definition checkForUpdates_try :: "env \<Rightarrow> error + notification list" where
  "checkForUpdates_try e =
     (case fetch e UPDATE_URL of
        None \<Rightarrow> Inl NetworkError
      | Some r \<Rightarrow>
          (if ok r
           then (case lastUpdate_of e (body r) of
                   None \<Rightarrow> Inl SyntaxError
                 | Some token \<Rightarrow>
                     (case localStorage e of
                        None \<Rightarrow> Inl ReferenceError
                      | Some lastUpdate \<Rightarrow>
                          (if lastUpdate = None \<or> lastUpdate = Some [] \<or>
                              lastUpdate \<noteq> Some token
                           then Inr [Notification ''CFM Actualizacoes''
                                       ''Ha novas actualizacoes disponiveis para o comboio'']
                           else Inr [])))
           else Inr []))"

definition checkForUpdates :: "env \<Rightarrow> notification list" where
  "checkForUpdates e = (case checkForUpdates_try e of Inl err \<Rightarrow> [] | Inr ns \<Rightarrow> ns)"

type_synonym port = nat

datatype reply = CacheInfo "string list" string | Status string

record message_event =
  data_type :: string
  ports :: "port list"

record message_outcome =
  caches_left :: cache_storage
  replies :: "(port \<times> reply) list"
  skipWaiting_called :: bool
  shown :: "notification list"
  uncaught :: "error option"

text \<open>
  \<open>event.ports[0].postMessage(r)\<close>: with no port in the event, \<open>event.ports[0]\<close> is
  \<open>undefined\<close> and the call throws a \<open>TypeError\<close> that nothing catches.
\<close>

definition post_reply :: "port list \<Rightarrow> reply \<Rightarrow> (port \<times> reply) list \<times> error option" where
  "post_reply ps r = (case ps of [] \<Rightarrow> ([], Some TypeError) | p # rest \<Rightarrow> ([(p, r)], None))"

text \<open>The message listener (lines 576 to 607): a \<open>switch\<close> on \<open>event.data.type\<close>.\<close>

definition message_listener :: "env \<Rightarrow> cache_storage \<Rightarrow> message_event \<Rightarrow> message_outcome" where
  "message_listener e cs ev =
     (if data_type ev = ''SKIP_WAITING''
      then \<lparr>caches_left = cs, replies = [], skipWaiting_called = True, shown = [],
            uncaught = None\<rparr>
      else if data_type ev = ''CLEAR_CACHE''
      then \<lparr>caches_left = fold caches_delete (caches_keys cs) cs, replies = [],
            skipWaiting_called = False, shown = [], uncaught = None\<rparr>
      else if data_type ev = ''GET_CACHE_INFO''
      then \<lparr>caches_left = cs,
            replies = fst (post_reply (ports ev) (CacheInfo (caches_keys cs) ''3.0'')),
            skipWaiting_called = False, shown = [],
            uncaught = snd (post_reply (ports ev) (CacheInfo (caches_keys cs) ''3.0''))\<rparr>
      else if data_type ev = ''CHECK_UPDATE''
      then \<lparr>caches_left = cs,
            replies = fst (post_reply (ports ev) (Status ''checked'')),
            skipWaiting_called = False, shown = checkForUpdates e,
            uncaught = snd (post_reply (ports ev) (Status ''checked''))\<rparr>
      else \<lparr>caches_left = cs, replies = [], skipWaiting_called = False, shown = [],
            uncaught = None\<rparr>)"

section \<open>The classification as the specification words it\<close>

text \<open>
  The specification (section 4.1) describes the router as an ordered list of rules, each
  with a strategy and a partition, of which the first that matches decides, and a
  default. The partitions are the primary document partition (\<open>CACHE_NAME\<close>), the API
  partition and the static partition.
\<close>

datatype strategy =
    NetworkFirstWithCacheFallback
  | TimeWindowedRefresh
  | StaleWhileRevalidateStrategy
  | CacheFirstWithBackgroundRefresh

datatype route_decision = Bypass | Route strategy string

type_synonym rule = "(request \<Rightarrow> bool) \<times> route_decision"

primrec first_match :: "rule list \<Rightarrow> route_decision \<Rightarrow> request \<Rightarrow> route_decision" where
  "first_match [] dflt req = dflt"
| "first_match (r # rs) dflt req =
     (if fst r req then snd r else first_match rs dflt req)"

text \<open>
  The conditions of the rules in the words of the specification. Rule 1: the URL matches
  the exclusion list (the scheme of a foreign extension, the paths of the advertising
  script). Rule 2: the mode is navigation. Rule 3: the URL host matches the rate-limited
  third-party endpoint. Rule 4: the query or the path indicates a generic API call.
  Rule 5: the URL is same-origin, or its host matches an allow-listed CDN or font host,
  or the extension of its path is in the static-asset set.
\<close>

definition on_exclusion_list :: "request \<Rightarrow> bool" where
  "on_exclusion_list req =
     (protocol req = ''chrome-extension:'' \<or>
      str_includes (href req) ''service-worker.min.js'' \<or>
      str_includes (href req) ''3nbf4.com/act/files/'')"

definition navigation_mode :: "request \<Rightarrow> bool" where
  "navigation_mode req = (mode req = ''navigate'')"

definition rate_limited_host :: "request \<Rightarrow> bool" where
  "rate_limited_host req = (host req = ''script.google.com'')"

definition generic_api :: "request \<Rightarrow> bool" where
  "generic_api req =
     (str_includes (search req) ''action='' \<or> str_includes (pathname req) ''/api/'')"

definition allow_listed_host :: "request \<Rightarrow> bool" where
  "allow_listed_host req =
     (host req = ''fonts.googleapis.com'' \<or> host req = ''fonts.gstatic.com'' \<or>
      host req = ''cdnjs.cloudflare.com'')"

definition static_asset :: "string \<Rightarrow> request \<Rightarrow> bool" where
  "static_asset self_origin req =
     (origin req = self_origin \<or> allow_listed_host req \<or> static_extension (pathname req))"

definition classification_rules :: "string \<Rightarrow> rule list" where
  "classification_rules self_origin =
     [(on_exclusion_list, Bypass),
      (navigation_mode, Route NetworkFirstWithCacheFallback CACHE_NAME),
      (rate_limited_host, Route TimeWindowedRefresh API_CACHE),
      (generic_api, Route StaleWhileRevalidateStrategy API_CACHE),
      (static_asset self_origin, Route CacheFirstWithBackgroundRefresh STATIC_CACHE)]"

definition classify_spec :: "string \<Rightarrow> request \<Rightarrow> route_decision" where
  "classify_spec self_origin req =
     first_match (classification_rules self_origin)
       (Route NetworkFirstWithCacheFallback CACHE_NAME) req"

text \<open>
  The conditions the listener tests in the place of the two host rules (lines 339 and
  352 to 354): the name of the host occurs somewhere in the URL.
\<close>

definition url_mentions_rate_limited_host :: "request \<Rightarrow> bool" where
  "url_mentions_rate_limited_host req = str_includes (href req) ''script.google.com''"

definition url_mentions_allow_listed_host :: "request \<Rightarrow> bool" where
  "url_mentions_allow_listed_host req =
     (str_includes (href req) ''fonts.googleapis.com'' \<or>
      str_includes (href req) ''fonts.gstatic.com'' \<or>
      str_includes (href req) ''cdnjs.cloudflare.com'')"

definition listener_rules :: "string \<Rightarrow> rule list" where
  "listener_rules self_origin =
     [(on_exclusion_list, Bypass),
      (navigation_mode, Route NetworkFirstWithCacheFallback CACHE_NAME),
      (url_mentions_rate_limited_host, Route TimeWindowedRefresh API_CACHE),
      (generic_api, Route StaleWhileRevalidateStrategy API_CACHE),
      (\<lambda>req. origin req = self_origin \<or> url_mentions_allow_listed_host req \<or>
              static_extension (pathname req),
       Route CacheFirstWithBackgroundRefresh STATIC_CACHE)]"

text \<open>The strategy each handler of sw.js implements, and the decision of the listener.\<close>

fun handler_strategy :: "handler \<Rightarrow> strategy" where
  "handler_strategy HandleNavigation = NetworkFirstWithCacheFallback"
| "handler_strategy HandleGoogleScript = TimeWindowedRefresh"
| "handler_strategy StaleWhileRevalidate = StaleWhileRevalidateStrategy"
| "handler_strategy CacheFirstWithUpdate = CacheFirstWithBackgroundRefresh"

fun route_of :: "decision \<Rightarrow> route_decision" where
  "route_of PassThrough = Bypass"
| "route_of (RespondWith h) = Route (handler_strategy h) (handler_cache h)"

text \<open>
  The time a stored entry of the API cache carries in its header \<open>sw-cached-time\<close>.
\<close>

definition stamp_of :: "response \<Rightarrow> int option" where
  "stamp_of r =
     (case headers_get (headers r) ''sw-cached-time'' of
        Some (Instant t) \<Rightarrow> Some t
      | _ \<Rightarrow> None)"

definition stored_stamp :: "cache_storage \<Rightarrow> request \<Rightarrow> int option" where
  "stored_stamp cs req =
     (case cache_match_request API_CACHE cs req of None \<Rightarrow> None | Some c \<Rightarrow> stamp_of c)"

section \<open>Concrete inputs\<close>

definition html_page :: response where
  "html_page =
     \<lparr>status = 200, statusText = ''OK'',
      headers = [(''content-type'', Text ''text/html'')], body = ''<html>index</html>''\<rparr>"

definition json_data :: response where
  "json_data =
     \<lparr>status = 200, statusText = ''OK'',
      headers = [(''content-type'', Text ''application/json'')], body = ''{}''\<rparr>"

definition not_found :: response where
  "not_found = \<lparr>status = 404, statusText = ''Not Found'', headers = [], body = []\<rparr>"

text \<open>
  Four networks: down; answering every request with JSON data; answering every request
  with an HTML page; answering every request with status 404. The worker is served from
  the root of \<open>https://cfm.example\<close>.
\<close>

definition offline_env :: env where
  "offline_env =
     \<lparr>fetch = (\<lambda>u. None), now = 1000, settled_at = 1500, clients = [1, 2],
      location_origin = ''https://cfm.example'', location_base = ''https://cfm.example/'',
      date_parse = (\<lambda>s. None), lastUpdate_of = (\<lambda>b. None), localStorage = None\<rparr>"

definition online_env :: env where
  "online_env = offline_env\<lparr>fetch := (\<lambda>u. Some json_data)\<rparr>"

definition html_env :: env where
  "html_env = offline_env\<lparr>fetch := (\<lambda>u. Some html_page)\<rparr>"

definition missing_env :: env where
  "missing_env = offline_env\<lparr>fetch := (\<lambda>u. Some not_found)\<rparr>"

text \<open>A network on which one asset of the manifest cannot be fetched.\<close>

definition flaky_env :: env where
  "flaky_env =
     offline_env\<lparr>fetch :=
       (\<lambda>u. if u = ''https://cfm.example/sound.mp3'' then None else Some json_data)\<rparr>"

definition index_request :: request where
  "index_request =
     \<lparr>href = ''https://cfm.example/index.html'', protocol = ''https:'',
      host = ''cfm.example'', origin = ''https://cfm.example'', pathname = ''/index.html'',
      search = [], mode = ''navigate'', request_method = ''GET''\<rparr>"

text \<open>The submission of a form: a navigation with the method POST.\<close>

definition form_request :: request where
  "form_request =
     \<lparr>href = ''https://cfm.example/index.html'', protocol = ''https:'',
      host = ''cfm.example'', origin = ''https://cfm.example'', pathname = ''/index.html'',
      search = [], mode = ''navigate'', request_method = ''POST''\<rparr>"

definition api_request :: request where
  "api_request =
     \<lparr>href = ''https://cfm.example/data?action=list'', protocol = ''https:'',
      host = ''cfm.example'', origin = ''https://cfm.example'', pathname = ''/data'',
      search = ''?action=list'', mode = ''cors'', request_method = ''GET''\<rparr>"

definition script_request :: request where
  "script_request =
     \<lparr>href = ''https://script.google.com/exec?action=lastupdate'', protocol = ''https:'',
      host = ''script.google.com'', origin = ''https://script.google.com'',
      pathname = ''/exec'', search = ''?action=lastupdate'', mode = ''cors'',
      request_method = ''GET''\<rparr>"

definition icon_request :: request where
  "icon_request =
     \<lparr>href = ''https://cfm.example/icon-192.png'', protocol = ''https:'',
      host = ''cfm.example'', origin = ''https://cfm.example'', pathname = ''/icon-192.png'',
      search = [], mode = ''no-cors'', request_method = ''GET''\<rparr>"

text \<open>
  A request to the site of the worker whose query mentions the remote host: the host of
  the URL is \<open>cfm.example\<close>.
\<close>

definition referral_request :: request where
  "referral_request =
     \<lparr>href = ''https://cfm.example/page.html?ref=script.google.com'', protocol = ''https:'',
      host = ''cfm.example'', origin = ''https://cfm.example'', pathname = ''/page.html'',
      search = ''?ref=script.google.com'', mode = ''cors'', request_method = ''GET''\<rparr>"

text \<open>
  A cache storage after a successful installation: the index page is in the static
  cache, the fallback document is in place, the primary cache is empty.
\<close>

definition seeded_store :: cache_storage where
  "seeded_store =
     [(STATIC_CACHE, [(''https://cfm.example/index.html'', html_page)]),
      (OFFLINE_CACHE, [(''https://cfm.example/offline.html'', offlineResponse)]),
      (CACHE_NAME, [])]"

text \<open>An entry of the API cache stored at time 1000, and the storage that holds it.\<close>

definition stamped_entry :: response where
  "stamped_entry =
     \<lparr>status = 200, statusText = ''OK'',
      headers = [(''content-type'', Text ''application/json''),
                 (''sw-cached-time'', Instant 1000)],
      body = ''{}''\<rparr>"

definition script_store :: cache_storage where
  "script_store = [(API_CACHE, [(''https://script.google.com/exec?action=lastupdate'', stamped_entry)])]"

definition api_store :: cache_storage where
  "api_store = [(API_CACHE, [(''https://cfm.example/data?action=list'', html_page)])]"

section \<open>Facts about the cache storage\<close>

lemma map_of_open:
  "map_of (caches_open m cs) n =
     (if n = m \<and> m \<notin> fst ` set cs then Some [] else map_of cs n)"
proof (cases "m \<in> fst ` set cs")
  case True
  then show ?thesis by (simp add: caches_open_def caches_keys_def)
next
  case False
  then have "map_of cs m = None" by (simp add: map_of_eq_None_iff)
  with False show ?thesis
    by (cases "map_of cs n") (auto simp: caches_open_def caches_keys_def map_add_def)
qed

lemma cache_match_open [simp]: "cache_match n (caches_open m cs) key = cache_match n cs key"
proof (cases "n = m \<and> m \<notin> fst ` set cs")
  case True
  then have "map_of cs n = None" by (simp add: map_of_eq_None_iff)
  with True show ?thesis by (simp add: cache_match_def map_of_open)
next
  case False
  then show ?thesis by (auto simp add: cache_match_def map_of_open)
qed

lemma cache_match_request_open [simp]:
  "cache_match_request n (caches_open m cs) req = cache_match_request n cs req"
  by (simp add: cache_match_request_def)

lemma caches_match_append:
  "caches_match (cs @ ds) key =
     (case caches_match cs key of Some r \<Rightarrow> Some r | None \<Rightarrow> caches_match ds key)"
  by (induction cs) (simp_all split: option.splits)

lemma caches_match_open [simp]: "caches_match (caches_open m cs) key = caches_match cs key"
  by (simp add: caches_open_def caches_match_append split: option.splits)

lemma caches_match_request_open [simp]:
  "caches_match_request (caches_open m cs) req = caches_match_request cs req"
  by (simp add: caches_match_request_def)

lemma names_put: "map fst (cache_put m k r cs) = map fst cs"
  by (induction cs) (simp_all add: cache_put_def)

lemma keys_put [simp]: "fst ` set (cache_put m k r cs) = fst ` set cs"
  using names_put [of m k r cs] by (metis set_map)

lemma map_of_put:
  "map_of (cache_put m k r cs) n =
     (case map_of cs n of
        None \<Rightarrow> None
      | Some c \<Rightarrow> Some (if n = m then AList.update k r c else c))"
  by (induction cs) (auto simp: cache_put_def)

lemma cache_match_put:
  "cache_match n (cache_put m k r cs) key =
     (if n = m \<and> key = k \<and> n \<in> fst ` set cs then Some r else cache_match n cs key)"
proof (cases "map_of cs n")
  case None
  then have "n \<notin> fst ` set cs" by (simp add: map_of_eq_None_iff)
  with None show ?thesis by (simp add: cache_match_def map_of_put)
next
  case (Some c)
  then have "n \<in> fst ` set cs" by (metis map_of_eq_None_iff option.distinct(1))
  with Some show ?thesis by (simp add: cache_match_def map_of_put update_conv')
qed

lemma open_mem [simp]: "n \<in> fst ` set (caches_open n cs)"
  by (auto simp: caches_open_def caches_keys_def)

lemma open_keeps [simp]: "n \<in> fst ` set cs \<Longrightarrow> n \<in> fst ` set (caches_open m cs)"
  by (auto simp: caches_open_def caches_keys_def)

lemma keys_fold_put [simp]:
  "fst ` set (fold (\<lambda>p s. cache_put n (fst p) (snd p) s) rs cs) = fst ` set cs"
  by (induction rs arbitrary: cs) simp_all

lemma cache_match_fold_put_other:
  "n' \<noteq> n \<Longrightarrow>
   cache_match n' (fold (\<lambda>p s. cache_put n (fst p) (snd p) s) rs cs) key = cache_match n' cs key"
  by (induction rs arbitrary: cs) (simp_all add: cache_match_put)

lemma cache_match_fold_put:
  assumes "\<forall>p\<in>set rs. F (fst p) = Some (snd p)" and "n \<in> fst ` set cs"
  shows "cache_match n (fold (\<lambda>p s. cache_put n (fst p) (snd p) s) rs cs) key =
           (if key \<in> fst ` set rs then F key else cache_match n cs key)"
  using assms
proof (induction rs arbitrary: cs)
  case Nil
  then show ?case by simp
next
  case (Cons p rs)
  have "cache_match n (fold (\<lambda>p s. cache_put n (fst p) (snd p) s) rs (cache_put n (fst p) (snd p) cs)) key =
        (if key \<in> fst ` set rs then F key else cache_match n (cache_put n (fst p) (snd p) cs) key)"
    using Cons.prems by (intro Cons.IH) simp_all
  with Cons.prems show ?case by (auto simp: cache_match_put)
qed

lemmas cache_names = CACHE_NAME_def STATIC_CACHE_def API_CACHE_def OFFLINE_CACHE_def

lemma headers_get_set:
  "headers_get (headers_set hs name v) n = (if n = name then Some v else headers_get hs n)"
  by (simp add: headers_get_def headers_set_def update_conv')

lemma put_accepts_stamped [simp]: "put_accepts req (stamped e r) = put_accepts req r"
  by (simp add: put_accepts_def response_storable_def stamped_def headers_get_def
      headers_set_def update_conv')

lemma put_accepts_json:
  "put_accepts script_request json_data" "put_accepts api_request json_data"
  by (simp_all add: put_accepts_def response_storable_def script_request_def api_request_def
      json_data_def headers_get_def header_includes_def)

lemma put_accepts_GET: "put_accepts req r \<Longrightarrow> request_method req = ''GET''"
  by (simp add: put_accepts_def)

lemma addable_json: "addable json_data"
  by (simp add: addable_def ok_def response_storable_def json_data_def headers_get_def
      header_includes_def)

lemma offlineResponse_storable: "response_storable offlineResponse"
  by (simp add: response_storable_def offlineResponse_def headers_get_def header_includes_def)

section \<open>Network first with cache fallback\<close>

lemma navigation_fallback_returned:
  assumes "cache_match OFFLINE_CACHE cs (resolve_url (location_base e) ''./offline.html'') = Some d"
  shows "returned (navigation_fallback e cs req) =
           Response (case caches_match_request cs req of Some c \<Rightarrow> c | None \<Rightarrow> d)"
  using assms by (simp add: navigation_fallback_def Let_def split: option.splits)

text \<open>
  C1, as the code has it. When the offline cache holds the fallback document,
  \<open>handleNavigation\<close> settles with a response for every request: it never rejects and
  never gives \<open>undefined\<close>. The response is the network response when the fetch resolves
  and the response either is not HTML or is one the primary cache takes. When the fetch
  rejects, it is the first match of the request over all caches of the storage, in
  creation order (\<open>caches.match\<close>, not a lookup in the primary cache alone), and
  otherwise the fallback document.
\<close>

theorem handleNavigation_responds:
  assumes "cache_match OFFLINE_CACHE cs (resolve_url (location_base e) ''./offline.html'') = Some d"
  shows "(\<exists>r. returned (handleNavigation e cs req) = Response r) \<and>
         (\<forall>r. fetch e (href req) = Some r \<and> (is_html r \<longrightarrow> put_accepts req r) \<longrightarrow>
            returned (handleNavigation e cs req) = Response r) \<and>
         (fetch e (href req) = None \<longrightarrow>
            returned (handleNavigation e cs req) =
              Response (case caches_match_request cs req of Some c \<Rightarrow> c | None \<Rightarrow> d))"
proof -
  have opened: "cache_match OFFLINE_CACHE (caches_open CACHE_NAME cs)
      (resolve_url (location_base e) ''./offline.html'') = Some d"
    using assms by simp
  show ?thesis
    by (auto simp: handleNavigation_def Let_def navigation_fallback_returned [OF assms]
        navigation_fallback_returned [OF opened] split: option.splits)
qed

theorem handleNavigation_responds_witness:
  "cache_match OFFLINE_CACHE seeded_store (resolve_url (location_base offline_env) ''./offline.html'') =
     Some offlineResponse \<and>
   returned (handleNavigation offline_env seeded_store icon_request) = Response offlineResponse \<and>
   returned (handleNavigation html_env seeded_store index_request) = Response html_page \<and>
   (\<exists>r. returned (handleNavigation html_env seeded_store form_request) = Response r)"
proof -
  have h: "cache_match OFFLINE_CACHE seeded_store
      (resolve_url (location_base offline_env) ''./offline.html'') = Some offlineResponse"
    by (simp add: cache_match_def seeded_store_def cache_names resolve_url_def offline_env_def)
  have h': "cache_match OFFLINE_CACHE seeded_store
      (resolve_url (location_base html_env) ''./offline.html'') = Some offlineResponse"
    using h by (simp add: html_env_def)
  have m: "caches_match_request seeded_store icon_request = None"
    by (simp add: caches_match_request_def cache_key_def seeded_store_def icon_request_def)
  have f: "fetch offline_env (href icon_request) = None" by (simp add: offline_env_def)
  have g: "fetch html_env (href index_request) = Some html_page" by (simp add: html_env_def)
  have p: "put_accepts index_request html_page"
    by (simp add: put_accepts_def response_storable_def index_request_def html_page_def
        headers_get_def header_includes_def)
  show ?thesis
    using handleNavigation_responds [OF h, of icon_request]
      handleNavigation_responds [OF h', of index_request]
      handleNavigation_responds [OF h', of form_request] h m f g p
    by simp
qed

text \<open>
  When the fetch resolves with an HTML response that the primary cache does not take (here
  for a form submitted with POST), the write of line 176 throws inside the \<open>try\<close> block
  and the answer is that of the \<open>catch\<close> block, not the network response.
\<close>

lemma form_submission_falls_back:
  "fetch html_env (href form_request) = Some html_page \<and>
   returned (handleNavigation html_env seeded_store form_request) = Response offlineResponse"
  by (simp add: handleNavigation_def navigation_fallback_def Let_def html_env_def offline_env_def
      form_request_def html_page_def is_html_def header_includes_def headers_get_def
      put_accepts_def caches_match_request_def cache_match_def resolve_url_def
      seeded_store_def cache_names caches_open_def caches_keys_def)

text \<open>
  C1 as stated fails: with the network down, the fallback seeded and no entry for the
  request in the primary cache, the claim gives the fallback document, but the worker
  answers with the entry the static cache holds for the request.
\<close>

theorem primary_partition_counterexample:
  "cache_match OFFLINE_CACHE seeded_store (resolve_url (location_base offline_env) ''./offline.html'') =
     Some offlineResponse \<and>
   fetch offline_env (href index_request) = None \<and>
   cache_match_request CACHE_NAME seeded_store index_request = None \<and>
   returned (handleNavigation offline_env seeded_store index_request) = Response html_page \<and>
   html_page \<noteq> offlineResponse"
  by (simp add: handleNavigation_def navigation_fallback_def caches_match_request_def
      cache_match_request_def cache_key_def cache_match_def seeded_store_def cache_names
      offline_env_def index_request_def html_page_def offlineResponse_def resolve_url_def)

section \<open>The router\<close>

text \<open>
  A handler changes the entries of the cache it opens for its writes and of no other
  cache: this is the partition of its decision.
\<close>

lemma handler_writes_own_cache:
  assumes "n \<noteq> handler_cache h"
  shows "cache_match n (store (run_handler h e cs req)) key = cache_match n cs key"
proof (cases h)
  case HandleNavigation
  with assms show ?thesis
    by (simp add: handleNavigation_def navigation_fallback_def Let_def cache_match_put
        split: option.splits)
next
  case HandleGoogleScript
  with assms show ?thesis
    by (simp add: handleGoogleScript_def Let_def cache_match_put split: option.splits)
next
  case StaleWhileRevalidate
  with assms show ?thesis
    by (simp add: staleWhileRevalidate_def Let_def cache_match_put split: option.splits)
next
  case CacheFirstWithUpdate
  with assms show ?thesis
    by (simp add: cacheFirstWithUpdate_def Let_def cache_match_put split: option.splits)
qed

text \<open>
  C2, as the code has it. The decision of the fetch listener, a strategy with its
  partition or the bypass, is the decision of an ordered rule list in which the first
  rule that matches wins: exclusion list, navigation mode, rate-limited host, generic
  API, static asset, and the default. The two rules on hosts match when the name of the
  host occurs anywhere in the URL of the request, not only when it is the host of the
  URL. On every request where that makes no difference, the decision is the one of the
  rules as the specification words them. The decision depends on the request and on the
  origin of the worker only.
\<close>

theorem route_first_match:
  "route_of (fetch_route self_origin req) =
     first_match (listener_rules self_origin)
       (Route NetworkFirstWithCacheFallback CACHE_NAME) req \<and>
   ((url_mentions_rate_limited_host req \<longleftrightarrow> rate_limited_host req) \<and>
    (url_mentions_allow_listed_host req \<longleftrightarrow> allow_listed_host req) \<longrightarrow>
      route_of (fetch_route self_origin req) = classify_spec self_origin req)"
  by (simp add: fetch_route_def classify_spec_def classification_rules_def listener_rules_def
      on_exclusion_list_def navigation_mode_def generic_api_def static_asset_def
      url_mentions_rate_limited_host_def url_mentions_allow_listed_host_def)

theorem route_first_match_witness:
  "route_of (fetch_route ''https://cfm.example'' script_request) =
     Route TimeWindowedRefresh API_CACHE \<and>
   classify_spec ''https://cfm.example'' script_request = Route TimeWindowedRefresh API_CACHE"
proof -
  have a: "url_mentions_rate_limited_host script_request \<longleftrightarrow> rate_limited_host script_request"
    by (simp add: url_mentions_rate_limited_host_def rate_limited_host_def script_request_def)
  have b: "url_mentions_allow_listed_host script_request \<longleftrightarrow> allow_listed_host script_request"
    by (simp add: url_mentions_allow_listed_host_def allow_listed_host_def script_request_def)
  have c: "classify_spec ''https://cfm.example'' script_request = Route TimeWindowedRefresh API_CACHE"
    by (simp add: classify_spec_def classification_rules_def on_exclusion_list_def
        navigation_mode_def rate_limited_host_def script_request_def)
  show ?thesis
    using route_first_match [of "''https://cfm.example''" script_request] a b c by metis
qed

text \<open>
  C2 as stated fails: a request to the site of the worker whose query mentions
  \<open>script.google.com\<close> has the host \<open>cfm.example\<close>, so the rules on hosts of the
  specification make it a static asset of the same origin, but the listener sends it to
  the time-windowed strategy.
\<close>

theorem host_rule_counterexample:
  "host referral_request = ''cfm.example'' \<and>
   route_of (fetch_route ''https://cfm.example'' referral_request) =
     Route TimeWindowedRefresh API_CACHE \<and>
   classify_spec ''https://cfm.example'' referral_request =
     Route CacheFirstWithBackgroundRefresh STATIC_CACHE"
  by (simp add: fetch_route_def classify_spec_def classification_rules_def on_exclusion_list_def
      navigation_mode_def rate_limited_host_def generic_api_def static_asset_def
      referral_request_def)

section \<open>Cache first with background refresh\<close>

text \<open>
  C3 at a cold miss with the network down: the request is in no cache and the fetch
  rejects. The fetch is awaited, and \<open>cacheFirstWithUpdate\<close> settles with
  \<open>undefined\<close>: the rejection is not passed on to the caller.
\<close>

theorem cold_miss_failure_undefined:
  "caches_match [] (href icon_request) = None \<and>
   fetch offline_env (href icon_request) = None \<and>
   returned (cacheFirstWithUpdate offline_env [] icon_request) = Undefined \<and>
   fetches (cacheFirstWithUpdate offline_env [] icon_request) = [Awaited]"
  by (simp add: cacheFirstWithUpdate_def caches_match_request_def offline_env_def)

section \<open>Stale while revalidate\<close>

text \<open>
  C4. When the API cache has an entry for the request, \<open>staleWhileRevalidate\<close> settles
  with that entry, whatever the network does (a response with status 200, a response with
  another status, or a rejected fetch).
\<close>

theorem staleWhileRevalidate_cached:
  assumes "cache_match_request API_CACHE cs req = Some c"
  shows "returned (staleWhileRevalidate e cs req) = Response c"
  using assms by (simp add: staleWhileRevalidate_def Let_def)

theorem staleWhileRevalidate_cached_witness:
  "cache_match_request API_CACHE api_store api_request = Some html_page \<and>
   returned (staleWhileRevalidate online_env api_store api_request) = Response html_page \<and>
   returned (staleWhileRevalidate missing_env api_store api_request) = Response html_page \<and>
   returned (staleWhileRevalidate offline_env api_store api_request) = Response html_page"
proof -
  have h: "cache_match_request API_CACHE api_store api_request = Some html_page"
    by (simp add: cache_match_request_def cache_key_def cache_match_def api_store_def
        api_request_def)
  show ?thesis
    using h staleWhileRevalidate_cached [OF h, of online_env]
      staleWhileRevalidate_cached [OF h, of missing_env]
      staleWhileRevalidate_cached [OF h, of offline_env]
    by simp
qed

section \<open>Time-windowed refresh\<close>

lemma cached_recently_Instant:
  assumes "headers_get (headers c) ''sw-cached-time'' = Some (Instant t0)"
  shows "cached_recently e c \<longleftrightarrow> now e - t0 < 300000"
proof -
  have "real_of_int (now e - t0) / (1000 * 60) < 5 \<longleftrightarrow> real_of_int (now e - t0) < 300000"
    by (simp add: field_simps)
  also have "\<dots> \<longleftrightarrow> now e - t0 < 300000" by linarith
  finally show ?thesis using assms by (simp add: cached_recently_def date_of_def)
qed

text \<open>
  C5. Let the API cache have for the request an entry stamped with the time \<open>t0\<close>. A
  request that arrives at a time in \<open>[t0, t0 + 5 min)\<close> is answered with that entry,
  unchanged, and the fetch is left running in the background. A request that arrives at
  \<open>t0 + 5 min\<close> or later awaits the fetch: the answer is the stamped network response when
  the fetch gives an \<open>ok\<close> response that the cache takes, and the stale entry only after
  the fetch or the write has failed.
\<close>

theorem handleGoogleScript_window:
  assumes "cache_match_request API_CACHE cs req = Some c"
    and "headers_get (headers c) ''sw-cached-time'' = Some (Instant t0)"
  shows "(t0 \<le> now e \<and> now e < t0 + 5 * 60 * 1000 \<longrightarrow>
            returned (handleGoogleScript e cs req) = Response c \<and>
            fetches (handleGoogleScript e cs req) = [Background]) \<and>
         (t0 + 5 * 60 * 1000 \<le> now e \<longrightarrow>
            fetches (handleGoogleScript e cs req) = [Awaited] \<and>
            returned (handleGoogleScript e cs req) =
              (case fetch e (href req) of
                 Some r \<Rightarrow>
                   if ok r \<and> put_accepts req (stamped e r) then Response (stamped e r)
                   else Response c
               | None \<Rightarrow> Response c))"
  using assms
  by (auto simp: handleGoogleScript_def Let_def cached_recently_Instant split: option.splits)

theorem handleGoogleScript_window_witness:
  "cache_match_request API_CACHE script_store script_request = Some stamped_entry \<and>
   headers_get (headers stamped_entry) ''sw-cached-time'' = Some (Instant 1000) \<and>
   returned (handleGoogleScript (online_env\<lparr>now := 1000\<rparr>) script_store script_request) =
     Response stamped_entry \<and>
   returned (handleGoogleScript (online_env\<lparr>now := 300999\<rparr>) script_store script_request) =
     Response stamped_entry \<and>
   fetches (handleGoogleScript (online_env\<lparr>now := 300999\<rparr>) script_store script_request) =
     [Background] \<and>
   fetches (handleGoogleScript (online_env\<lparr>now := 301000\<rparr>) script_store script_request) =
     [Awaited] \<and>
   returned (handleGoogleScript (online_env\<lparr>now := 301000\<rparr>) script_store script_request) =
     Response (stamped (online_env\<lparr>now := 301000\<rparr>) json_data)"
proof -
  have h: "cache_match_request API_CACHE script_store script_request = Some stamped_entry"
    by (simp add: cache_match_request_def cache_key_def cache_match_def script_store_def
        script_request_def)
  have s: "headers_get (headers stamped_entry) ''sw-cached-time'' = Some (Instant 1000)"
    by (simp add: headers_get_def stamped_entry_def)
  have k: "ok json_data" by (simp add: ok_def json_data_def)
  show ?thesis
    using h s k put_accepts_json(1)
      handleGoogleScript_window [OF h s, of "online_env\<lparr>now := 1000\<rparr>"]
      handleGoogleScript_window [OF h s, of "online_env\<lparr>now := 300999\<rparr>"]
      handleGoogleScript_window [OF h s, of "online_env\<lparr>now := 301000\<rparr>"]
    by (simp add: online_env_def offline_env_def)
qed

lemma store_handleGoogleScript:
  assumes "fetch e (href req) = Some r" and "ok r" and "put_accepts req r"
  shows "store (handleGoogleScript e cs req) =
           cache_put API_CACHE (cache_key req) (stamped e r) (caches_open API_CACHE cs)"
  using assms by (simp add: handleGoogleScript_def Let_def split: option.splits)

lemma read_back_handleGoogleScript:
  assumes "fetch e (href req) = Some r" and "ok r" and "put_accepts req r"
  shows "cache_match_request API_CACHE (store (handleGoogleScript e cs req)) req =
           Some (stamped e r)"
  using assms put_accepts_GET [OF assms(3)]
  by (simp add: store_handleGoogleScript cache_match_request_def cache_match_put)

lemma stored_stamp_handleGoogleScript:
  assumes "fetch e (href req) = Some r" and "ok r" and "put_accepts req r"
  shows "stored_stamp (store (handleGoogleScript e cs req)) req = Some (settled_at e)"
  using assms
  by (simp add: read_back_handleGoogleScript stored_stamp_def stamp_of_def stamped_def
      headers_get_set)

lemma store_staleWhileRevalidate:
  assumes "fetch e (href req) = Some r" and "status r = 200" and "put_accepts req r"
  shows "store (staleWhileRevalidate e cs req) =
           cache_put API_CACHE (cache_key req) r (caches_open API_CACHE cs)"
  using assms by (simp add: staleWhileRevalidate_def Let_def split: option.splits)

text \<open>
  C9, as the code has it. The time-windowed strategy is the one that injects the header
  \<open>sw-cached-time\<close>. When it stores the \<open>ok\<close> network response \<open>r\<close> for a request (a
  write the cache takes), reading the request in the API cache gives \<open>r\<close> with its
  status, status text, body and every other header unchanged, and with the header
  \<open>sw-cached-time\<close> set to the clock read at the store. Over two successive refreshes of
  the key, the second made at a later clock reading than the first, the value of the
  header increases.
\<close>

theorem handleGoogleScript_roundtrip:
  assumes "fetch e (href req) = Some r" and "ok r" and "put_accepts req r"
    and "fetch e' (href req) = Some r'" and "ok r'" and "put_accepts req r'"
    and "settled_at e < settled_at e'"
  shows "cache_match_request API_CACHE (store (handleGoogleScript e cs req)) req =
           Some (stamped e r) \<and>
         status (stamped e r) = status r \<and>
         statusText (stamped e r) = statusText r \<and>
         body (stamped e r) = body r \<and>
         (\<forall>name. name \<noteq> ''sw-cached-time'' \<longrightarrow>
            headers_get (headers (stamped e r)) name = headers_get (headers r) name) \<and>
         headers_get (headers (stamped e r)) ''sw-cached-time'' = Some (Instant (settled_at e)) \<and>
         (\<exists>t t'. stored_stamp (store (handleGoogleScript e cs req)) req = Some t \<and>
            stored_stamp
              (store (handleGoogleScript e' (store (handleGoogleScript e cs req)) req))
              req = Some t' \<and>
            t < t')"
proof -
  have "cache_match_request API_CACHE (store (handleGoogleScript e cs req)) req = Some (stamped e r)"
    using assms(1-3) by (rule read_back_handleGoogleScript)
  moreover have "\<forall>name. name \<noteq> ''sw-cached-time'' \<longrightarrow>
      headers_get (headers (stamped e r)) name = headers_get (headers r) name"
    by (simp add: stamped_def headers_get_set)
  moreover have "headers_get (headers (stamped e r)) ''sw-cached-time'' = Some (Instant (settled_at e))"
    by (simp add: stamped_def headers_get_set)
  moreover have "stored_stamp (store (handleGoogleScript e cs req)) req = Some (settled_at e)"
    using assms(1-3) by (rule stored_stamp_handleGoogleScript)
  moreover have "stored_stamp
      (store (handleGoogleScript e' (store (handleGoogleScript e cs req)) req)) req =
      Some (settled_at e')"
    using assms(4-6) by (rule stored_stamp_handleGoogleScript)
  ultimately show ?thesis using assms(7) by (simp add: stamped_def)
qed

theorem handleGoogleScript_roundtrip_witness:
  "cache_match_request API_CACHE (store (handleGoogleScript online_env [] script_request))
     script_request = Some (stamped online_env json_data) \<and>
   headers_get (headers (stamped online_env json_data)) ''content-type'' =
     Some (Text ''application/json'') \<and>
   stored_stamp (store (handleGoogleScript online_env [] script_request)) script_request =
     Some 1500 \<and>
   stored_stamp
     (store (handleGoogleScript (online_env\<lparr>now := 2000, settled_at := 2500\<rparr>)
        (store (handleGoogleScript online_env [] script_request)) script_request))
     script_request = Some 2500"
proof -
  have f: "fetch online_env (href script_request) = Some json_data"
    and f': "fetch (online_env\<lparr>now := 2000, settled_at := 2500\<rparr>) (href script_request) = Some json_data"
    and k: "ok json_data"
    and t: "settled_at online_env < settled_at (online_env\<lparr>now := 2000, settled_at := 2500\<rparr>)"
    by (simp_all add: online_env_def offline_env_def ok_def json_data_def)
  note p = put_accepts_json(1)
  have s1: "stored_stamp (store (handleGoogleScript online_env [] script_request))
     script_request = Some 1500"
    using stored_stamp_handleGoogleScript [OF f k p, of "[]"]
    by (simp add: online_env_def offline_env_def)
  have s2: "stored_stamp
     (store (handleGoogleScript (online_env\<lparr>now := 2000, settled_at := 2500\<rparr>)
        (store (handleGoogleScript online_env [] script_request)) script_request))
     script_request = Some 2500"
    using stored_stamp_handleGoogleScript [OF f' k p] by simp
  have c: "headers_get (headers json_data) ''content-type'' = Some (Text ''application/json'')"
    by (simp add: headers_get_def json_data_def)
  show ?thesis
    using handleGoogleScript_roundtrip [OF f k p f' k p t, of "[]"] s1 s2 c
    by simp
qed

text \<open>
  C9 as stated fails twice. The entry that \<open>staleWhileRevalidate\<close> stores is the network
  response as it is, with no header \<open>sw-cached-time\<close>. And two successive refreshes of a
  key by \<open>handleGoogleScript\<close> that read the same clock value (the clock counts
  milliseconds) store the same value, not a greater one.
\<close>

theorem freshness_header_counterexample:
  "cache_match_request API_CACHE (store (staleWhileRevalidate online_env [] api_request))
     api_request = Some json_data \<and>
   headers_get (headers json_data) ''sw-cached-time'' = None \<and>
   stored_stamp (store (handleGoogleScript (online_env\<lparr>now := 1500\<rparr>) [] script_request))
     script_request = Some 1500 \<and>
   stored_stamp
     (store (handleGoogleScript (online_env\<lparr>now := 1500\<rparr>)
        (store (handleGoogleScript (online_env\<lparr>now := 1500\<rparr>) [] script_request))
        script_request))
     script_request = Some 1500"
proof -
  have f: "fetch (online_env\<lparr>now := 1500\<rparr>) (href script_request) = Some json_data"
    and k: "ok json_data"
    by (simp_all add: online_env_def offline_env_def ok_def json_data_def)
  note p = put_accepts_json(1)
  have g: "request_method api_request = ''GET''" by (simp add: api_request_def)
  have a: "cache_match_request API_CACHE (store (staleWhileRevalidate online_env [] api_request))
     api_request = Some json_data"
    using store_staleWhileRevalidate [of online_env api_request json_data "[]"]
      put_accepts_json(2) g
    by (simp add: online_env_def offline_env_def json_data_def cache_match_request_def
        cache_match_put)
  have b: "headers_get (headers json_data) ''sw-cached-time'' = None"
    by (simp add: headers_get_def json_data_def)
  show ?thesis
    using a b stored_stamp_handleGoogleScript [OF f k p, of "[]"]
      stored_stamp_handleGoogleScript [OF f k p,
        of "store (handleGoogleScript (online_env\<lparr>now := 1500\<rparr>) [] script_request)"]
    by (simp add: online_env_def offline_env_def)
qed

section \<open>Installation\<close>

lemma fetch_all_None:
  "fetch_all e urls = None \<longleftrightarrow>
     (\<exists>u\<in>set urls. case fetch e (resolve_url (location_base e) u) of
                       None \<Rightarrow> True | Some r \<Rightarrow> \<not> addable r)"
proof (induction urls)
  case Nil
  then show ?case by simp
next
  case (Cons u urls)
  show ?case
  proof (cases "fetch e (resolve_url (location_base e) u)")
    case None
    then show ?thesis by simp
  next
    case (Some r)
    then show ?thesis using Cons.IH by (cases "fetch_all e urls") auto
  qed
qed

lemma fetch_all_Some_iff:
  "(\<exists>rs. fetch_all e urls = Some rs) \<longleftrightarrow>
     (\<forall>u\<in>set urls. \<exists>r. fetch e (resolve_url (location_base e) u) = Some r \<and> addable r)"
proof -
  have "(\<exists>rs. fetch_all e urls = Some rs) \<longleftrightarrow> fetch_all e urls \<noteq> None" by auto
  also have "\<dots> \<longleftrightarrow>
      (\<forall>u\<in>set urls. \<not> (case fetch e (resolve_url (location_base e) u) of
                            None \<Rightarrow> True | Some r \<Rightarrow> \<not> addable r))"
    by (simp add: fetch_all_None)
  also have "\<dots> \<longleftrightarrow>
      (\<forall>u\<in>set urls. \<exists>r. fetch e (resolve_url (location_base e) u) = Some r \<and> addable r)"
    by (intro ball_cong refl) (simp split: option.splits)
  finally show ?thesis .
qed

lemma fetch_all_Some:
  "fetch_all e urls = Some rs \<Longrightarrow>
     map fst rs = map (resolve_url (location_base e)) urls \<and>
     (\<forall>p\<in>set rs. fetch e (fst p) = Some (snd p))"
  by (induction urls arbitrary: rs) (auto split: option.splits if_splits)

text \<open>
  C6, as the code has it. When one URL of the manifest cannot be fetched (the fetch
  rejects, or the response is not \<open>ok\<close> or not one a cache takes), the installation
  fails and no cache gains an entry: the static cache is not seeded in part, and the
  fallback document is not stored either. When every URL of the manifest is fetched, the
  installation succeeds, the static cache holds the response of each URL, and the offline
  cache holds the fallback document. The fallback is stored after the manifest, in the
  same awaited sequence.
\<close>

theorem install_gated_by_manifest:
  "((\<exists>u\<in>set STATIC_ASSETS.
        case fetch e (resolve_url (location_base e) u) of
          None \<Rightarrow> True | Some r \<Rightarrow> \<not> addable r) \<longrightarrow>
      \<not> resolved (install e cs) \<and>
      (\<forall>name key. cache_match name (caches_after (install e cs)) key = cache_match name cs key)) \<and>
   ((\<forall>u\<in>set STATIC_ASSETS.
        \<exists>r. fetch e (resolve_url (location_base e) u) = Some r \<and> addable r) \<longrightarrow>
      resolved (install e cs) \<and>
      (\<forall>u\<in>set STATIC_ASSETS.
         cache_match STATIC_CACHE (caches_after (install e cs)) (resolve_url (location_base e) u) =
           fetch e (resolve_url (location_base e) u)) \<and>
      cache_match OFFLINE_CACHE (caches_after (install e cs))
        (resolve_url (location_base e) ''./offline.html'') = Some offlineResponse)"
proof (intro conjI impI)
  assume "\<exists>u\<in>set STATIC_ASSETS.
     case fetch e (resolve_url (location_base e) u) of None \<Rightarrow> True | Some r \<Rightarrow> \<not> addable r"
  then have n: "fetch_all e STATIC_ASSETS = None" by (simp add: fetch_all_None)
  then show "\<not> resolved (install e cs)" by (simp add: install_def addAll_def Let_def)
  from n show "\<forall>name key. cache_match name (caches_after (install e cs)) key = cache_match name cs key"
    by (simp add: install_def addAll_def Let_def)
next
  assume a: "\<forall>u\<in>set STATIC_ASSETS.
     \<exists>r. fetch e (resolve_url (location_base e) u) = Some r \<and> addable r"
  then obtain rs where rs: "fetch_all e STATIC_ASSETS = Some rs"
    using fetch_all_Some_iff [of e STATIC_ASSETS] by blast
  from fetch_all_Some [OF rs]
  have keys: "map fst rs = map (resolve_url (location_base e)) STATIC_ASSETS"
    and vals: "\<forall>p\<in>set rs. fetch e (fst p) = Some (snd p)"
    by simp_all
  from keys have keys': "fst ` set rs = resolve_url (location_base e) ` set STATIC_ASSETS"
    by (metis set_map)
  let ?cs2 = "caches_open OFFLINE_CACHE (caches_open STATIC_CACHE cs)"
  let ?cs3 = "fold (\<lambda>p s. cache_put STATIC_CACHE (fst p) (snd p) s) rs ?cs2"
  have after: "caches_after (install e cs) =
      cache_put OFFLINE_CACHE (resolve_url (location_base e) ''./offline.html'') offlineResponse ?cs3"
    and res: "resolved (install e cs)"
    using rs by (simp_all add: install_def addAll_def Let_def offlineResponse_storable)
  show "resolved (install e cs)" by (rule res)
  have ne: "STATIC_CACHE \<noteq> OFFLINE_CACHE" by (simp add: cache_names)
  show "\<forall>u\<in>set STATIC_ASSETS.
     cache_match STATIC_CACHE (caches_after (install e cs)) (resolve_url (location_base e) u) =
       fetch e (resolve_url (location_base e) u)"
  proof
    fix u assume u: "u \<in> set STATIC_ASSETS"
    let ?k = "resolve_url (location_base e) u"
    have "cache_match STATIC_CACHE (caches_after (install e cs)) ?k = cache_match STATIC_CACHE ?cs3 ?k"
      using ne by (simp add: after cache_match_put)
    also have "\<dots> = (if ?k \<in> fst ` set rs then fetch e ?k else cache_match STATIC_CACHE ?cs2 ?k)"
      by (rule cache_match_fold_put [OF vals]) simp
    finally show "cache_match STATIC_CACHE (caches_after (install e cs)) ?k = fetch e ?k"
      using u keys' by simp
  qed
  show "cache_match OFFLINE_CACHE (caches_after (install e cs))
      (resolve_url (location_base e) ''./offline.html'') = Some offlineResponse"
    by (simp add: after cache_match_put)
qed

theorem install_gated_by_manifest_witness:
  "\<not> resolved (install flaky_env []) \<and>
   cache_match STATIC_CACHE (caches_after (install flaky_env [])) ''https://cfm.example/index.html'' = None \<and>
   resolved (install online_env []) \<and>
   cache_match STATIC_CACHE (caches_after (install online_env [])) ''https://cfm.example/index.html'' =
     Some json_data \<and>
   cache_match OFFLINE_CACHE (caches_after (install online_env [])) ''https://cfm.example/offline.html'' =
     Some offlineResponse"
proof -
  have bad: "\<exists>u\<in>set STATIC_ASSETS.
      case fetch flaky_env (resolve_url (location_base flaky_env) u) of
        None \<Rightarrow> True | Some r \<Rightarrow> \<not> addable r"
    by (simp add: STATIC_ASSETS_def flaky_env_def offline_env_def resolve_url_def)
  have good: "\<forall>u\<in>set STATIC_ASSETS.
      \<exists>r. fetch online_env (resolve_url (location_base online_env) u) = Some r \<and> addable r"
    by (simp add: online_env_def addable_json)
  have idx: "''./index.html'' \<in> set STATIC_ASSETS" by (simp add: STATIC_ASSETS_def)
  have r1: "resolve_url (location_base online_env) ''./index.html'' = ''https://cfm.example/index.html''"
    and r2: "resolve_url (location_base online_env) ''./offline.html'' = ''https://cfm.example/offline.html''"
    by (simp_all add: resolve_url_def online_env_def offline_env_def)
  have f: "fetch online_env ''https://cfm.example/index.html'' = Some json_data"
    by (simp add: online_env_def)
  from good idx
  have "cache_match STATIC_CACHE (caches_after (install online_env []))
      (resolve_url (location_base online_env) ''./index.html'') =
      fetch online_env (resolve_url (location_base online_env) ''./index.html'')"
    using install_gated_by_manifest [of online_env "[]"] by blast
  then have s: "cache_match STATIC_CACHE (caches_after (install online_env []))
      ''https://cfm.example/index.html'' = Some json_data"
    by (simp add: r1 f)
  show ?thesis
    using install_gated_by_manifest [of flaky_env "[]"] install_gated_by_manifest [of online_env "[]"]
      bad good s r2
    by (simp add: cache_match_def)
qed

text \<open>
  C6 as stated fails: storing the fallback document is not independent of the manifest.
  On a network where the single asset \<open>./sound.mp3\<close> cannot be fetched, the installation
  fails and the offline cache is left without the fallback document.
\<close>

theorem fallback_seeding_gated_counterexample:
  "fetch flaky_env ''https://cfm.example/sound.mp3'' = None \<and>
   \<not> resolved (install flaky_env []) \<and>
   cache_match OFFLINE_CACHE (caches_after (install flaky_env []))
     ''https://cfm.example/offline.html'' = None"
  by (simp add: install_def addAll_def Let_def STATIC_ASSETS_def flaky_env_def offline_env_def
      resolve_url_def addable_json cache_match_def caches_open_def caches_keys_def cache_names)

section \<open>Activation\<close>

lemma fold_delete_filter:
  "fold (\<lambda>cacheName s. if P cacheName then caches_delete cacheName s else s) names cs =
     filter (\<lambda>p. \<not> (P (fst p) \<and> fst p \<in> set names)) cs"
proof (induction names arbitrary: cs)
  case Nil
  then show ?case by simp
next
  case (Cons n names)
  show ?case
    by (auto simp: Cons.IH caches_delete_def intro!: filter_cong)
qed

text \<open>
  C7. Activation keeps, in order and with their entries, exactly the caches whose names
  are in the list of the current version, and deletes the others; it posts to every
  client a message \<open>SW_ACTIVATED\<close> with the version \<open>3.0\<close> and the time.
\<close>

theorem activate_prunes:
  "caches_after (activate e cs) =
     filter (\<lambda>p. fst p \<in> set [CACHE_NAME, STATIC_CACHE, API_CACHE, OFFLINE_CACHE]) cs \<and>
   broadcast (activate e cs) = map (\<lambda>client. (client, SW_ACTIVATED ''3.0'' (now e))) (clients e)"
proof -
  have "caches_after (activate e cs) =
      filter (\<lambda>p. \<not> (fst p \<notin> set [CACHE_NAME, STATIC_CACHE, API_CACHE, OFFLINE_CACHE] \<and>
                       fst p \<in> set (caches_keys cs))) cs"
    by (simp add: activate_def Let_def fold_delete_filter)
  also have "\<dots> = filter (\<lambda>p. fst p \<in> set [CACHE_NAME, STATIC_CACHE, API_CACHE, OFFLINE_CACHE]) cs"
    by (rule filter_cong) (auto simp: caches_keys_def)
  finally show ?thesis by (simp add: activate_def Let_def)
qed

lemma activate_example:
  "caches_keys (caches_after (activate online_env
      [(''cfm-static-v1.8'', [(''https://cfm.example/index.html'', html_page)]),
       (STATIC_CACHE, [(''https://cfm.example/index.html'', html_page)]),
       (API_CACHE, [])])) = [STATIC_CACHE, API_CACHE]"
  by (simp add: activate_def caches_keys_def caches_delete_def cache_names)

section \<open>The control channel\<close>

text \<open>
  C8, as the code has it. For a message that carries a reply port, \<open>GET_CACHE_INFO\<close>
  posts the cache names and the version on the first port, and \<open>CHECK_UPDATE\<close> posts the
  status \<open>checked\<close> there once the update check has settled; \<open>CLEAR_CACHE\<close>, like
  \<open>SKIP_WAITING\<close>, posts no reply.
\<close>

theorem message_replies:
  assumes "ports ev = p # ps"
  shows "(data_type ev = ''GET_CACHE_INFO'' \<longrightarrow>
            replies (message_listener e cs ev) = [(p, CacheInfo (caches_keys cs) ''3.0'')]) \<and>
         (data_type ev = ''CHECK_UPDATE'' \<longrightarrow>
            replies (message_listener e cs ev) = [(p, Status ''checked'')]) \<and>
         (data_type ev = ''CLEAR_CACHE'' \<or> data_type ev = ''SKIP_WAITING'' \<longrightarrow>
            replies (message_listener e cs ev) = [])"
  using assms by (simp add: message_listener_def post_reply_def)

theorem message_replies_witness:
  "replies (message_listener online_env seeded_store \<lparr>data_type = ''GET_CACHE_INFO'', ports = [7]\<rparr>) =
     [(7, CacheInfo [STATIC_CACHE, OFFLINE_CACHE, CACHE_NAME] ''3.0'')] \<and>
   replies (message_listener online_env seeded_store \<lparr>data_type = ''CHECK_UPDATE'', ports = [7]\<rparr>) =
     [(7, Status ''checked'')] \<and>
   replies (message_listener online_env seeded_store \<lparr>data_type = ''SKIP_WAITING'', ports = [7]\<rparr>) = []"
  using message_replies [of "\<lparr>data_type = ''GET_CACHE_INFO'', ports = [7]\<rparr>" 7 "[]" online_env seeded_store]
    message_replies [of "\<lparr>data_type = ''CHECK_UPDATE'', ports = [7]\<rparr>" 7 "[]" online_env seeded_store]
    message_replies [of "\<lparr>data_type = ''SKIP_WAITING'', ports = [7]\<rparr>" 7 "[]" online_env seeded_store]
  by (simp add: caches_keys_def seeded_store_def)

text \<open>
  C8 as stated fails for the command that clears the caches: it deletes every cache and
  posts nothing on the reply port the message carries.
\<close>

theorem clear_cache_no_reply_counterexample:
  "replies (message_listener online_env seeded_store \<lparr>data_type = ''CLEAR_CACHE'', ports = [7]\<rparr>) = [] \<and>
   caches_left (message_listener online_env seeded_store \<lparr>data_type = ''CLEAR_CACHE'', ports = [7]\<rparr>) = []"
  by (simp add: message_listener_def caches_keys_def seeded_store_def caches_delete_def cache_names)

section \<open>The update notification\<close>

text \<open>
  Called on its own for a URL of the remote host, \<open>staleWhileRevalidate\<close> does post
  \<open>DATA_UPDATED\<close> to the clients.
\<close>

lemma posted_staleWhileRevalidate:
  assumes "fetch e (href req) = Some r" and "status r = 200" and "put_accepts req r"
    and "str_includes (href req) ''script.google.com''"
  shows "posted (staleWhileRevalidate e cs req) = notifyAboutUpdate e"
  using assms by (simp add: staleWhileRevalidate_def Let_def split: option.splits)

lemma notify_reachable_directly:
  "posted (staleWhileRevalidate online_env [] script_request) =
     [(1, DATA_UPDATED ''Dados atualizados disponiveis'' 1500),
      (2, DATA_UPDATED ''Dados atualizados disponiveis'' 1500)]"
proof -
  have "fetch online_env (href script_request) = Some json_data" "status json_data = 200"
    "str_includes (href script_request) ''script.google.com''"
    by (simp_all add: online_env_def json_data_def script_request_def)
  then have "posted (staleWhileRevalidate online_env [] script_request) =
      notifyAboutUpdate online_env"
    using put_accepts_json(1) by (intro posted_staleWhileRevalidate)
  then show ?thesis by (simp add: notifyAboutUpdate_def online_env_def offline_env_def)
qed

lemma posted_navigation_fallback [simp]: "posted (navigation_fallback e cs req) = []"
  by (simp add: navigation_fallback_def Let_def split: option.splits)

text \<open>
  C10. Whatever the fetch listener answers, for every request, network and cache storage,
  no message is posted to the clients: \<open>DATA_UPDATED\<close> is never sent through routing,
  since the requests that reach \<open>staleWhileRevalidate\<close> do not contain
  \<open>script.google.com\<close> in their URL.
\<close>

theorem data_updated_unreachable:
  assumes "fetch_listener e cs req = Some out"
  shows "posted out = []"
proof -
  from assms obtain h where r: "fetch_route (location_origin e) req = RespondWith h"
    and o: "out = run_handler h e cs req"
    by (auto simp: fetch_listener_def split: decision.splits)
  show ?thesis
  proof (cases h)
    case HandleNavigation
    with o show ?thesis by (simp add: handleNavigation_def Let_def split: option.splits)
  next
    case HandleGoogleScript
    with o show ?thesis by (simp add: handleGoogleScript_def Let_def split: option.splits)
  next
    case StaleWhileRevalidate
    with r have "\<not> str_includes (href req) ''script.google.com''"
      by (simp add: fetch_route_def split: if_splits)
    with o StaleWhileRevalidate show ?thesis
      by (simp add: staleWhileRevalidate_def Let_def split: option.splits)
  next
    case CacheFirstWithUpdate
    with o show ?thesis by (simp add: cacheFirstWithUpdate_def Let_def split: option.splits)
  qed
qed

theorem data_updated_unreachable_witness:
  "fetch_listener online_env [] script_request =
     Some (handleGoogleScript online_env [] script_request) \<and>
   posted (handleGoogleScript online_env [] script_request) = []"
proof -
  have h: "fetch_listener online_env [] script_request =
     Some (handleGoogleScript online_env [] script_request)"
    by (simp add: fetch_listener_def fetch_route_def online_env_def offline_env_def
        script_request_def)
  show ?thesis using h data_updated_unreachable [OF h] by simp
qed

end
